theory Spec2Isabelle
  imports Complex_Main "HOL-Library.Sublist"
begin

section \<open>Gesture recognition (src/components/GestureRecognition.tsx)\<close>

text \<open>
  JavaScript numbers are modelled as real numbers: the coordinates of a landmark, the
  distances and the confidence are values of type \<^typ>\<open>real\<close>, and the decimal
  constants of the source (0.8, 1.2, 0.15, 0.4, 0.05, 0.95, ...) denote the decimal
  fractions they are written as. Timestamps (\<open>Date.getTime()\<close>, \<open>Date.now()\<close>) are
  integer milliseconds.
\<close>

subsection \<open>Data\<close>

text \<open>\<open>interface HandLandmarks { x: number; y: number }\<close>\<close>

record HandLandmarks =
  lm_x :: real
  lm_y :: real

text \<open>
  The gesture type is a string in the source, \<open>''\<close> standing for "no pattern matched";
  the six strings the classifier can assign are the constructors below, and the empty
  string is \<open>None\<close>.
\<close>

datatype GestureType = thumb_up | peace_sign | pointing | fist | open_palm | ok_sign

datatype Mode = alphabet | word

text \<open>The value \<open>{ type: gestureType, confidence }\<close> returned by \<open>recognizeGesture\<close>.\<close>

record Recognized =
  gesture_type :: GestureType
  gesture_confidence :: real

text \<open>\<open>interface GestureData\<close>\<close>

record GestureData =
  gesture :: string
  confidence :: real
  timestamp :: int
  mode :: Mode

subsection \<open>Landmark geometry\<close>

text \<open>
  \<open>Math.sqrt(Math.pow(a.x - b.x, 2) + Math.pow(a.y - b.y, 2))\<close>, which the source writes
  out at each use.
\<close>

definition distance :: "HandLandmarks \<Rightarrow> HandLandmarks \<Rightarrow> real" where
  "distance a b = sqrt ((lm_x a - lm_x b)\<^sup>2 + (lm_y a - lm_y b)\<^sup>2)"

definition isFingerExtended :: "HandLandmarks \<Rightarrow> HandLandmarks \<Rightarrow> HandLandmarks \<Rightarrow> bool" where
  "isFingerExtended tip pip mcp =
     (let tipToPip = distance tip pip;
          pipToMcp = distance pip mcp;
          tipToMcp = distance tip mcp
      in tipToMcp > (tipToPip + pipToMcp) * 0.8)"

text \<open>
  \<open>isThumbExtended\<close> reads \<open>thumbTip\<close>, \<open>thumbMcp\<close> and \<open>wrist\<close> from the enclosing
  scope; they are parameters here.
\<close>

definition isThumbExtended :: "HandLandmarks \<Rightarrow> HandLandmarks \<Rightarrow> HandLandmarks \<Rightarrow> bool" where
  "isThumbExtended thumbTip thumbMcp wrist =
     (let thumbToWrist = distance thumbTip wrist;
          thumbMcpToWrist = distance thumbMcp wrist
      in thumbToWrist > thumbMcpToWrist * 1.2)"

subsection \<open>The classifier\<close>

text \<open>
  The five booleans \<open>thumbExtended, indexExtended, middleExtended, ringExtended,
  pinkyExtended\<close> of a hand of at least 21 landmarks.
\<close>

definition fingerStates :: "HandLandmarks list \<Rightarrow> bool \<times> bool \<times> bool \<times> bool \<times> bool" where
  "fingerStates landmarks =
     (let wrist = landmarks ! 0;
          thumbTip = landmarks ! 4;
          thumbMcp = landmarks ! 2;
          indexTip = landmarks ! 8;
          indexPip = landmarks ! 6;
          indexMcp = landmarks ! 5;
          middleTip = landmarks ! 12;
          middlePip = landmarks ! 10;
          middleMcp = landmarks ! 9;
          ringTip = landmarks ! 16;
          ringPip = landmarks ! 14;
          ringMcp = landmarks ! 13;
          pinkyTip = landmarks ! 20;
          pinkyPip = landmarks ! 18;
          pinkyMcp = landmarks ! 17
      in (isThumbExtended thumbTip thumbMcp wrist,
          isFingerExtended indexTip indexPip indexMcp,
          isFingerExtended middleTip middlePip middleMcp,
          isFingerExtended ringTip ringPip ringMcp,
          isFingerExtended pinkyTip pinkyPip pinkyMcp))"

text \<open>
  \<open>[thumbExtended, ..., pinkyExtended].filter(Boolean).length\<close>
\<close>

definition extendedCount :: "bool \<times> bool \<times> bool \<times> bool \<times> bool \<Rightarrow> nat" where
  "extendedCount s =
     (case s of (thumbExtended, indexExtended, middleExtended, ringExtended, pinkyExtended) \<Rightarrow>
        length (filter id [thumbExtended, indexExtended, middleExtended, ringExtended, pinkyExtended]))"

text \<open>
  The \<open>if / else if\<close> chain of lines 217 to 239: the values of \<open>gestureType\<close> and
  \<open>confidence\<close> after it. They start as \<open>''\<close> and \<open>0.7\<close>.
\<close>

definition gesturePattern :: "bool \<times> bool \<times> bool \<times> bool \<times> bool \<Rightarrow> GestureType option \<times> real" where
  "gesturePattern s =
     (case s of (thumbExtended, indexExtended, middleExtended, ringExtended, pinkyExtended) \<Rightarrow>
        if thumbExtended \<and> \<not> indexExtended \<and> \<not> middleExtended \<and> \<not> ringExtended \<and> \<not> pinkyExtended
          then (Some thumb_up, 0.9)
        else if \<not> thumbExtended \<and> indexExtended \<and> middleExtended \<and> \<not> ringExtended \<and> \<not> pinkyExtended
          then (Some peace_sign, 0.9)
        else if \<not> thumbExtended \<and> indexExtended \<and> \<not> middleExtended \<and> \<not> ringExtended \<and> \<not> pinkyExtended
          then (Some pointing, 0.85)
        else if \<not> thumbExtended \<and> \<not> indexExtended \<and> \<not> middleExtended \<and> \<not> ringExtended \<and> \<not> pinkyExtended
          then (Some fist, 0.9)
        else if thumbExtended \<and> indexExtended \<and> middleExtended \<and> ringExtended \<and> pinkyExtended
          then (Some open_palm, 0.8)
        else if thumbExtended \<and> indexExtended \<and> \<not> middleExtended \<and> \<not> ringExtended \<and> \<not> pinkyExtended
          then (Some ok_sign, 0.8)
        else (None, 0.7))"

text \<open>
  \<open>palmCenter\<close> and \<open>handSize\<close> of lines 249 to 254.
\<close>

definition palmCenter :: "HandLandmarks list \<Rightarrow> HandLandmarks" where
  "palmCenter landmarks =
     (let indexMcp = landmarks ! 5;
          middleMcp = landmarks ! 9;
          ringMcp = landmarks ! 13;
          pinkyMcp = landmarks ! 17
      in \<lparr> lm_x = (lm_x indexMcp + lm_x middleMcp + lm_x ringMcp + lm_x pinkyMcp) / 4,
           lm_y = (lm_y indexMcp + lm_y middleMcp + lm_y ringMcp + lm_y pinkyMcp) / 4 \<rparr>)"

definition handSize :: "HandLandmarks list \<Rightarrow> real" where
  "handSize landmarks = distance (landmarks ! 0) (palmCenter landmarks)"

text \<open>
  \<open>recognizeGesture\<close>: \<open>null\<close> is \<open>None\<close>. The parameter is declared
  \<open>HandLandmarks[]\<close>, so the test \<open>!landmarks\<close> is the test of the length alone.
  The two bonuses are added one after the other, and the result is capped.
\<close>

definition recognizeGesture :: "HandLandmarks list \<Rightarrow> Recognized option" where
  "recognizeGesture landmarks =
     (if length landmarks < 21 then None
      else
        let s = fingerStates landmarks;
            n = extendedCount s;
            (gestureType, confidence0) = gesturePattern s
        in case gestureType of
             None \<Rightarrow> None
           | Some ty \<Rightarrow>
               let confidence1 =
                     (if n = 1 \<or> n = 2 \<or> n = 5 then confidence0 + 0.05 else confidence0);
                   hs = handSize landmarks;
                   confidence2 =
                     (if hs > 0.15 \<and> hs < 0.4 then confidence1 + 0.05 else confidence1);
                   confidence3 = min confidence2 0.95
               in Some \<lparr> gesture_type = ty, gesture_confidence = confidence3 \<rparr>)"

subsection \<open>Label tables and the component state\<close>

text \<open>
  The two object literals \<open>alphabetGestures\<close> and \<open>wordGestures\<close>, as association
  lists in the order they are written; \<open>table[gesture.type]\<close> is \<open>map_of table\<close>, and a
  missing key (\<open>undefined\<close>) is \<open>None\<close>.
\<close>

definition alphabetGestures :: "(GestureType \<times> string) list" where
  "alphabetGestures =
     [(thumb_up, ''A''), (peace_sign, ''V''), (pointing, ''I''), (fist, ''B''),
      (open_palm, ''STOP'')]"

definition wordGestures :: "(GestureType \<times> string) list" where
  "wordGestures =
     [(thumb_up, ''YES''), (peace_sign, ''PEACE''), (pointing, ''I''), (fist, ''NO''),
      (open_palm, ''HELP''), (ok_sign, ''OK'')]"

text \<open>
  \<open>getCurrentGestures\<close> reads \<open>mode\<close> from the closure it was created in; the
  mode it sees is its parameter.
\<close>

definition getCurrentGestures :: "Mode \<Rightarrow> (GestureType \<times> string) list" where
  "getCurrentGestures m = (if m = alphabet then alphabetGestures else wordGestures)"

text \<open>
  The \<open>useState\<close> cells of the component that the recognition pipeline reads or writes.
\<close>

record component_state =
  state_mode :: Mode
  currentText :: string
  state_confidence :: real
  history :: "GestureData list"

definition initialState :: component_state where
  "initialState =
     \<lparr> state_mode = alphabet, currentText = [], state_confidence = 0, history = [] \<rparr>"

definition setMode :: "Mode \<Rightarrow> component_state \<Rightarrow> component_state" where
  "setMode m s = s\<lparr> state_mode := m \<rparr>"

definition clearHistory :: "component_state \<Rightarrow> component_state" where
  "clearHistory s = s\<lparr> history := [], currentText := [] \<rparr>"

text \<open>
  The updater passed to \<open>setHistory\<close> (lines 117 to 126). \<open>now\<close> is the reading of
  \<open>new Date().getTime()\<close> inside the updater; \<open>prev[prev.length - 1]\<close> of an empty
  array is \<open>undefined\<close>, which fails the test.
\<close>

definition addToHistory :: "int \<Rightarrow> GestureData \<Rightarrow> GestureData list \<Rightarrow> GestureData list" where
  "addToHistory now newGestureData prev =
     (if prev \<noteq> []
         \<and> gesture (last prev) = gesture newGestureData
         \<and> now - timestamp (last prev) < 1000
      then prev
      else prev @ [newGestureData])"

text \<open>
  The body of the loop of \<open>onResults\<close> for one hand (lines 101 to 128), without the
  drawing. The hand comes with the two clock readings of its iteration: \<open>created\<close> is the
  \<open>new Date()\<close> stored in the event, \<open>now\<close> the reading inside the updater. \<open>m\<close> is
  the \<open>mode\<close> of the closure of the callback.
\<close>

definition onResultsHand ::
  "Mode \<Rightarrow> HandLandmarks list \<times> int \<times> int \<Rightarrow> component_state \<Rightarrow> component_state" where
  "onResultsHand m frame s =
     (case frame of (landmarks, created, now) \<Rightarrow>
        case recognizeGesture landmarks of
          None \<Rightarrow> s
        | Some g \<Rightarrow>
            (case map_of (getCurrentGestures m) (gesture_type g) of
               None \<Rightarrow> s
             | Some gestureText \<Rightarrow>
                 if gesture_confidence g > 0.7
                 then s\<lparr> currentText := gestureText,
                         state_confidence := gesture_confidence g,
                         history := addToHistory now
                           \<lparr> gesture = gestureText, confidence = gesture_confidence g,
                             timestamp = created, mode = m \<rparr> (history s) \<rparr>
                 else s))"

text \<open>
  \<open>onResults\<close>: the loop over \<open>results.multiHandLandmarks\<close>, with the canvas and the
  video element present. The updaters run in the order of the hands.
\<close>

fun onResults ::
  "Mode \<Rightarrow> (HandLandmarks list \<times> int \<times> int) list \<Rightarrow> component_state \<Rightarrow> component_state" where
  "onResults m [] s = s"
| "onResults m (frame # frames) s = onResults m frames (onResultsHand m frame s)"

text \<open>
  Every render of the component builds an \<open>onResults\<close> for its own \<open>mode\<close>
  (\<open>useCallback\<close> with the dependencies \<open>[mode, getCurrentGestures]\<close>). The one that
  MediaPipe calls is the one passed to \<open>hands.onResults\<close> (line 70), inside
  \<open>initializeHands\<close>. \<open>initializeHands\<close> is memoised with the empty dependency list
  (line 82), so whenever \<open>startCamera\<close> calls it, it is the function of the first render
  and the \<open>onResults\<close> it passes on is that of the first render, whose \<open>mode\<close> is the
  initial value of the state cell.
\<close>

definition registeredOnResults ::
  "(HandLandmarks list \<times> int \<times> int) list \<Rightarrow> component_state \<Rightarrow> component_state" where
  "registeredOnResults = onResults (state_mode initialState)"

text \<open>
  What happens to the component while the camera runs: a click on one of the two mode
  buttons, a result of MediaPipe (the hands of one video frame with their clock
  readings), a click on the clear button.
\<close>

datatype component_event =
    SetMode Mode
  | HandsResults "(HandLandmarks list \<times> int \<times> int) list"
  | ClearHistory

fun component_step :: "component_state \<Rightarrow> component_event \<Rightarrow> component_state" where
  "component_step s (SetMode m) = setMode m s"
| "component_step s (HandsResults frames) = registeredOnResults frames s"
| "component_step s ClearHistory = clearHistory s"

definition component_run :: "component_state \<Rightarrow> component_event list \<Rightarrow> component_state" where
  "component_run s events = foldl component_step s events"

section \<open>Emergency reports and voice keywords (src/pages/Index.tsx)\<close>

subsection \<open>The keyword table and the scan\<close>

datatype Severity = high | critical

record KeywordInfo =
  service :: string
  number :: string
  severity :: Severity

text \<open>
  \<open>emergencyKeywords\<close>, as the list \<open>Object.entries\<close> yields: the keys in insertion
  order (none of them is an array index).
\<close>

definition emergencyKeywords :: "(string \<times> KeywordInfo) list" where
  "emergencyKeywords =
     [(''help'', \<lparr> service = ''Emergency Services'', number = ''108'', severity = high \<rparr>),
      (''emergency'', \<lparr> service = ''Emergency Services'', number = ''108'', severity = high \<rparr>),
      (''fire'', \<lparr> service = ''Fire Department'', number = ''101'', severity = critical \<rparr>),
      (''police'', \<lparr> service = ''Police'', number = ''100'', severity = high \<rparr>),
      (''ambulance'', \<lparr> service = ''Medical Emergency'', number = ''108'', severity = critical \<rparr>),
      (''danger'', \<lparr> service = ''Emergency Services'', number = ''108'', severity = high \<rparr>),
      (''attack'', \<lparr> service = ''Police'', number = ''100'', severity = critical \<rparr>),
      (''accident'', \<lparr> service = ''Medical Emergency'', number = ''108'', severity = critical \<rparr>),
      (''medical'', \<lparr> service = ''Medical Emergency'', number = ''108'', severity = high \<rparr>),
      (''hurt'', \<lparr> service = ''Medical Emergency'', number = ''108'', severity = high \<rparr>),
      (''bleeding'', \<lparr> service = ''Medical Emergency'', number = ''108'', severity = critical \<rparr>),
      (''madad'', \<lparr> service = ''Emergency Services'', number = ''108'', severity = high \<rparr>),
      (''bachaiye'', \<lparr> service = ''Emergency Services'', number = ''108'', severity = high \<rparr>),
      (''aag'', \<lparr> service = ''Fire Department'', number = ''101'', severity = critical \<rparr>),
      (''police_hindi'', \<lparr> service = ''Police'', number = ''100'', severity = high \<rparr>),
      (''ambulance_hindi'', \<lparr> service = ''Medical Emergency'', number = ''108'', severity = critical \<rparr>),
      (''khatre'', \<lparr> service = ''Emergency Services'', number = ''108'', severity = high \<rparr>),
      (''hamla'', \<lparr> service = ''Police'', number = ''100'', severity = critical \<rparr>),
      (''durghatna'', \<lparr> service = ''Medical Emergency'', number = ''108'', severity = critical \<rparr>)]"

text \<open>
  \<open>transcript.includes(keyword)\<close>: the keyword occurs in the transcript as a contiguous
  run of characters.
\<close>

definition string_includes :: "string \<Rightarrow> string \<Rightarrow> bool" where
  "string_includes transcript keyword = sublist keyword transcript"

text \<open>
  The \<open>for\<close> loop of lines 234 to 241 over the remaining entries, threading
  \<open>detectedKeyword\<close> (\<open>null\<close> is \<open>None\<close>). The object \<open>{ keyword, ...info }\<close> is the
  pair of the keyword and its entry. The variable \<open>highestSeverity\<close> is written by the
  loop and never read; it is left out.
\<close>

fun scanKeywords ::
  "string \<Rightarrow> (string \<times> KeywordInfo) list \<Rightarrow> (string \<times> KeywordInfo) option
     \<Rightarrow> (string \<times> KeywordInfo) option" where
  "scanKeywords transcript [] detectedKeyword = detectedKeyword"
| "scanKeywords transcript ((keyword, info) # rest) detectedKeyword =
     scanKeywords transcript rest
       (if string_includes transcript keyword
        then (if detectedKeyword = None \<or> severity info = critical
              then Some (keyword, info) else detectedKeyword)
        else detectedKeyword)"

text \<open>The value of \<open>detectedKeyword\<close> after the loop.\<close>

definition detectKeyword :: "string \<Rightarrow> (string \<times> KeywordInfo) option" where
  "detectKeyword transcript = scanKeywords transcript emergencyKeywords None"

subsection \<open>The report log\<close>

datatype ReportType = SOS | Voice | Gesture

datatype ReportStatus = pending | sent | failed

record Location =
  lat :: real
  lng :: real

text \<open>\<open>interface EmergencyReport\<close>; its fields \<open>id\<close>, \<open>type\<close>, \<open>location\<close> and
  \<open>timestamp\<close> carry the prefix \<open>report_\<close> here.\<close>

record EmergencyReport =
  report_id :: string
  report_type :: ReportType
  message :: string
  report_location :: "Location option"
  report_timestamp :: int
  status :: ReportStatus

text \<open>
  The values of the state cells \<open>isOnline\<close> and \<open>location\<close> in one render of the page.
  \<open>createReport\<close>, \<open>handleSOS\<close>, \<open>processVoiceTranscript\<close> and \<open>startVoiceRecording\<close>
  are plain functions of the component body: each render creates them anew, and the ones
  of a render read \<open>isOnline\<close> and \<open>location\<close> as they were in that render.
  \<open>render_location\<close> holds the coordinates of the position, or \<open>None\<close> for \<open>null\<close>.
\<close>

record render =
  render_isOnline :: bool
  render_location :: "Location option"

text \<open>
  The state of the page: the three state cells, the render whose
  \<open>processVoiceTranscript\<close> the handler \<open>recognition.onresult\<close> calls (\<open>None\<close> while
  no recognition runs), and the pending timers of line 290, each with the render whose
  \<open>handleSOS\<close> it calls, oldest first.
\<close>

record index_state =
  isOnline :: bool
  location :: "Location option"
  reports :: "EmergencyReport list"
  recognition :: "render option"
  sosTimers :: "render list"

definition initialIndexState :: index_state where
  "initialIndexState =
     \<lparr> isOnline = True, location = None, reports = [], recognition = None, sosTimers = [] \<rparr>"

text \<open>
  The latest render: the page renders again after each change of a state cell, so the
  handlers on its buttons are those of the render with the current values.
\<close>

definition currentRender :: "index_state \<Rightarrow> render" where
  "currentRender s = \<lparr> render_isOnline = isOnline s, render_location = location s \<rparr>"

text \<open>\<open>Number.prototype.toString\<close> on an integer: its decimal digits.\<close>

fun toString_nat :: "nat \<Rightarrow> string" where
  "toString_nat n =
     (if n < 10 then [''0123456789'' ! n]
      else toString_nat (n div 10) @ [''0123456789'' ! (n mod 10)])"

declare toString_nat.simps [simp del]

definition toString :: "int \<Rightarrow> string" where
  "toString i = (if i < 0 then ''-'' @ toString_nat (nat (- i)) else toString_nat (nat i))"

text \<open>
  \<open>createReport\<close> (lines 71 to 83) of the render \<open>r\<close>: \<open>isOnline\<close> and \<open>location\<close> are
  those of \<open>r\<close>, while the updater of \<open>setReports\<close> appends to the log as it is now.
  \<open>dateNow\<close> is the reading of \<open>Date.now()\<close> and \<open>newDate\<close> that of \<open>new Date()\<close>. It
  returns the report and the state with the report appended.
\<close>

definition createReport ::
  "render \<Rightarrow> int \<Rightarrow> int \<Rightarrow> ReportType \<Rightarrow> string \<Rightarrow> index_state
     \<Rightarrow> EmergencyReport \<times> index_state" where
  "createReport r dateNow newDate type msg s =
     (let newReport =
            \<lparr> report_id = toString dateNow,
              report_type = type,
              message = msg,
              report_location = render_location r,
              report_timestamp = newDate,
              status = (if render_isOnline r then sent else pending) \<rparr>
      in (newReport, s\<lparr> reports := reports s @ [newReport] \<rparr>))"

text \<open>
  \<open>handleSOS\<close> and \<open>processVoiceTranscript\<close> of the render \<open>r\<close>, as far as they change
  the state; the toasts and the speech synthesis are outside it. They call the
  \<open>createReport\<close> of their own render. On a critical keyword \<open>processVoiceTranscript\<close>
  sets a timer of 2000 ms for the \<open>handleSOS\<close> of its render.
\<close>

definition handleSOS :: "render \<Rightarrow> int \<Rightarrow> int \<Rightarrow> index_state \<Rightarrow> index_state" where
  "handleSOS r dateNow newDate s =
     snd (createReport r dateNow newDate SOS ''Emergency SOS activated'' s)"

definition processVoiceTranscript ::
  "render \<Rightarrow> int \<Rightarrow> int \<Rightarrow> string \<Rightarrow> index_state \<Rightarrow> index_state" where
  "processVoiceTranscript r dateNow newDate transcript s =
     (case detectKeyword transcript of
        None \<Rightarrow> s
      | Some (keyword, info) \<Rightarrow>
          let s1 = snd (createReport r dateNow newDate Voice
                     (''Voice detected: '' @ [CHR 0x22] @ keyword @ [CHR 0x22] @ '' - ''
                        @ service info) s)
          in if severity info = critical
             then s1\<lparr> sosTimers := sosTimers s1 @ [r] \<rparr>
             else s1)"

text \<open>
  The events of the page that touch this state, and a run of them.
  \<^item> \<open>HandleOnline\<close>, \<open>HandleOffline\<close>: the listeners of the window events.
  \<^item> \<open>SetLocation\<close>: the callback of \<open>getCurrentPosition\<close>.
  \<^item> \<open>HandleSOS\<close>: a click on the SOS button, which calls the \<open>handleSOS\<close> of the latest
    render.
  \<^item> \<open>StartVoiceRecording\<close>: a click on the record button. The \<open>startVoiceRecording\<close> of
    the latest render installs \<open>recognition.onresult\<close> (line 133), which calls the
    \<open>processVoiceTranscript\<close> of that same render for as long as the recognition runs.
  \<^item> \<open>ProcessVoiceTranscript\<close>: \<open>recognition.onresult\<close> fires with a transcript (already
    in lower case). Without \<open>SpeechRecognition\<close> the handler \<open>recorder.ondataavailable\<close>
    takes its place and calls the same function with one of six keywords.
  \<^item> \<open>RecognitionEnd\<close>: \<open>recognition.onend\<close>; no result follows it.
  \<^item> \<open>SOSTimer\<close>: the oldest pending timer of line 290 fires.
\<close>

datatype index_event =
    HandleOnline
  | HandleOffline
  | SetLocation "Location option"
  | HandleSOS int int
  | StartVoiceRecording
  | ProcessVoiceTranscript int int string
  | RecognitionEnd
  | SOSTimer int int

fun index_step :: "index_state \<Rightarrow> index_event \<Rightarrow> index_state" where
  "index_step s HandleOnline = s\<lparr> isOnline := True \<rparr>"
| "index_step s HandleOffline = s\<lparr> isOnline := False \<rparr>"
| "index_step s (SetLocation p) = s\<lparr> location := p \<rparr>"
| "index_step s (HandleSOS dateNow newDate) = handleSOS (currentRender s) dateNow newDate s"
| "index_step s StartVoiceRecording = s\<lparr> recognition := Some (currentRender s) \<rparr>"
| "index_step s (ProcessVoiceTranscript dateNow newDate transcript) =
     (case recognition s of
        None \<Rightarrow> s
      | Some r \<Rightarrow> processVoiceTranscript r dateNow newDate transcript s)"
| "index_step s RecognitionEnd = s\<lparr> recognition := None \<rparr>"
| "index_step s (SOSTimer dateNow newDate) =
     (case sosTimers s of
        [] \<Rightarrow> s
      | r # rs \<Rightarrow> handleSOS r dateNow newDate (s\<lparr> sosTimers := rs \<rparr>))"

definition index_run :: "index_state \<Rightarrow> index_event list \<Rightarrow> index_state" where
  "index_run s events = foldl index_step s events"

section \<open>The specification's tables and rules, and sample inputs\<close>

text \<open>
  The pattern table as the specification lists it: the 5-tuple (thumb, index, middle, ring,
  pinky), the gesture type and the base confidence.
\<close>

definition spec_patternTable ::
  "((bool \<times> bool \<times> bool \<times> bool \<times> bool) \<times> GestureType \<times> real) list" where
  "spec_patternTable =
     [((True, False, False, False, False), thumb_up, 0.9),
      ((False, True, True, False, False), peace_sign, 0.9),
      ((False, True, False, False, False), pointing, 0.85),
      ((False, False, False, False, False), fist, 0.9),
      ((True, True, True, True, True), open_palm, 0.8),
      ((True, True, False, False, False), ok_sign, 0.8)]"

text \<open>
  The confidence adjustment as the specification words it, with the closed interval
  [0.15, 0.4] for the hand scale.
\<close>

definition spec_adjustedConfidence :: "real \<Rightarrow> nat \<Rightarrow> real \<Rightarrow> real" where
  "spec_adjustedConfidence base n hs =
     min (base + (if n = 1 \<or> n = 2 \<or> n = 5 then 0.05 else 0)
               + (if 0.15 \<le> hs \<and> hs \<le> 0.4 then 0.05 else 0)) 0.95"

text \<open>The candidates of a transcript in a table, in table order, and the critical ones.\<close>

definition candidates ::
  "string \<Rightarrow> (string \<times> KeywordInfo) list \<Rightarrow> (string \<times> KeywordInfo) list" where
  "candidates transcript table =
     filter (\<lambda>(keyword, info). string_includes transcript keyword) table"

definition criticalCandidates ::
  "string \<Rightarrow> (string \<times> KeywordInfo) list \<Rightarrow> (string \<times> KeywordInfo) list" where
  "criticalCandidates transcript table =
     filter (\<lambda>(keyword, info). severity info = critical) (candidates transcript table)"

text \<open>
  The selection as the specification words it: a critical candidate beats any other, and
  among several critical candidates, as among several others, the earliest wins.
\<close>

definition spec_bestMatch ::
  "string \<Rightarrow> (string \<times> KeywordInfo) list \<Rightarrow> (string \<times> KeywordInfo) option" where
  "spec_bestMatch transcript table =
     (case criticalCandidates transcript table of
        c # cs \<Rightarrow> Some c
      | [] \<Rightarrow> (case candidates transcript table of c # cs \<Rightarrow> Some c | [] \<Rightarrow> None))"

text \<open>
  Sample hands, all of whose 21 landmarks lie on the line \<open>y = 0\<close>. \<open>fistHand d\<close> has the
  wrist and the thumb at 0 and the other four fingers folded onto the point \<open>d\<close>;
  \<open>openHand d\<close> has the thumb stretched away from the wrist and four straight fingers
  whose knuckles are at \<open>d\<close>.
\<close>

definition lineHand :: "real list \<Rightarrow> HandLandmarks list" where
  "lineHand as = map (\<lambda>a. \<lparr> lm_x = a, lm_y = 0 \<rparr>) as"

definition fistHand :: "real \<Rightarrow> HandLandmarks list" where
  "fistHand d = lineHand (replicate 5 0 @ replicate 16 d)"

definition openHand :: "real \<Rightarrow> HandLandmarks list" where
  "openHand d =
     lineHand [0, 0.05, 0.1, 0.15, 0.2,
               d, d + 0.1, d + 0.15, d + 0.2,
               d, d + 0.1, d + 0.15, d + 0.2,
               d, d + 0.1, d + 0.15, d + 0.2,
               d, d + 0.1, d + 0.15, d + 0.2]"

section \<open>Properties of the classifier\<close>

subsection \<open>Auxiliary facts\<close>

lemma distance_same_y:
  "distance \<lparr> lm_x = a, lm_y = c \<rparr> \<lparr> lm_x = b, lm_y = c \<rparr> = \<bar>a - b\<bar>"
  by (simp add: distance_def)

lemmas hand_eval =
  recognizeGesture_def fistHand_def openHand_def lineHand_def fingerStates_def
  isFingerExtended_def isThumbExtended_def distance_same_y gesturePattern_def
  extendedCount_def handSize_def palmCenter_def Let_def nth_append

lemma gesturePattern_cases:
  assumes "gesturePattern s = (Some ty, c)"
  shows "(ty = thumb_up \<and> c = 0.9 \<and> extendedCount s = 1)
       \<or> (ty = peace_sign \<and> c = 0.9 \<and> extendedCount s = 2)
       \<or> (ty = pointing \<and> c = 0.85 \<and> extendedCount s = 1)
       \<or> (ty = fist \<and> c = 0.9 \<and> extendedCount s = 0)
       \<or> (ty = open_palm \<and> c = 0.8 \<and> extendedCount s = 5)
       \<or> (ty = ok_sign \<and> c = 0.8 \<and> extendedCount s = 2)"
proof -
  obtain t i m r p where s: "s = (t, i, m, r, p)"
    by (metis prod_cases5)
  show ?thesis
    using assms unfolding s
    by (cases t; cases i; cases m; cases r; cases p)
       (simp_all add: gesturePattern_def extendedCount_def)
qed

lemma gesturePattern_map_of:
  "map_of spec_patternTable s =
     (case gesturePattern s of (None, c) \<Rightarrow> None | (Some ty, c) \<Rightarrow> Some (ty, c))"
proof -
  obtain t i m r p where s: "s = (t, i, m, r, p)"
    by (metis prod_cases5)
  show ?thesis
    unfolding s
    by (cases t; cases i; cases m; cases r; cases p)
       (simp_all add: spec_patternTable_def gesturePattern_def)
qed

lemma recognizeGesture_type:
  "21 \<le> length landmarks \<Longrightarrow>
   map_option gesture_type (recognizeGesture landmarks) = fst (gesturePattern (fingerStates landmarks))"
  by (simp add: recognizeGesture_def Let_def split: prod.splits option.splits)

lemma recognizeGesture_Some:
  assumes "recognizeGesture landmarks = Some g"
  shows "21 \<le> length landmarks
    \<and> fst (gesturePattern (fingerStates landmarks)) = Some (gesture_type g)
    \<and> gesture_confidence g =
        min (snd (gesturePattern (fingerStates landmarks))
             + (if extendedCount (fingerStates landmarks) \<in> {1, 2, 5} then 0.05 else 0)
             + (if 0.15 < handSize landmarks \<and> handSize landmarks < 0.4 then 0.05 else 0)) 0.95"
  using assms
  by (auto simp add: recognizeGesture_def Let_def split: if_splits prod.splits option.splits)

lemma recognizeGesture_base:
  assumes "recognizeGesture landmarks = Some g"
  obtains c where "gesturePattern (fingerStates landmarks) = (Some (gesture_type g), c)"
    and "gesture_confidence g =
        min (c + (if extendedCount (fingerStates landmarks) \<in> {1, 2, 5} then 0.05 else 0)
               + (if 0.15 < handSize landmarks \<and> handSize landmarks < 0.4 then 0.05 else 0)) 0.95"
  using recognizeGesture_Some [OF assms]
  by (cases "gesturePattern (fingerStates landmarks)") auto

lemma recognizeGesture_conf_ge:
  assumes "recognizeGesture landmarks = Some g"
  shows "0.85 \<le> gesture_confidence g"
proof -
  from recognizeGesture_base [OF assms] obtain c where
    p: "gesturePattern (fingerStates landmarks) = (Some (gesture_type g), c)"
    and e: "gesture_confidence g =
        min (c + (if extendedCount (fingerStates landmarks) \<in> {1, 2, 5} then 0.05 else 0)
               + (if 0.15 < handSize landmarks \<and> handSize landmarks < 0.4 then 0.05 else 0)) 0.95"
    by blast
  from gesturePattern_cases [OF p] e show ?thesis
    by (auto simp: min_def)
qed

lemma recognizeGesture_fistHand_0:
  "recognizeGesture (fistHand 0) = Some \<lparr> gesture_type = fist, gesture_confidence = 0.9 \<rparr>"
  by (simp add: hand_eval)

lemma recognizeGesture_fistHand_quarter:
  "recognizeGesture (fistHand 0.25) = Some \<lparr> gesture_type = fist, gesture_confidence = 0.95 \<rparr>"
  by (simp add: hand_eval)

lemma recognizeGesture_openHand_far:
  "recognizeGesture (openHand 0.5) = Some \<lparr> gesture_type = open_palm, gesture_confidence = 0.85 \<rparr>"
  by (simp add: hand_eval)

lemma recognizeGesture_openHand_near:
  "recognizeGesture (openHand 0.3) = Some \<lparr> gesture_type = open_palm, gesture_confidence = 0.9 \<rparr>"
  by (simp add: hand_eval)

lemma length_fistHand: "length (fistHand d) = 21"
  by (simp add: fistHand_def lineHand_def)

lemma length_openHand: "length (openHand d) = 21"
  by (simp add: openHand_def lineHand_def)

subsection \<open>Short landmark lists\<close>

text \<open>
  C5. A landmark list with fewer than 21 points is rejected: the classifier returns
  \<open>null\<close>, a normal negative result.
\<close>

theorem recognizeGesture_short:
  "length landmarks < 21 \<Longrightarrow> recognizeGesture landmarks = None"
  by (simp add: recognizeGesture_def)

theorem recognizeGesture_short_witness:
  "length [\<lparr> lm_x = 0, lm_y = 0 \<rparr>, \<lparr> lm_x = 1/2, lm_y = 1/2 \<rparr>] < 21
   \<and> recognizeGesture [\<lparr> lm_x = 0, lm_y = 0 \<rparr>, \<lparr> lm_x = 1/2, lm_y = 1/2 \<rparr>] = None"
  using recognizeGesture_short [of "[\<lparr> lm_x = 0, lm_y = 0 \<rparr>, \<lparr> lm_x = 1/2, lm_y = 1/2 \<rparr>]"]
  by simp

subsection \<open>The pattern table\<close>

text \<open>
  C2. For a hand of (at least) 21 landmarks, the \<open>if / else if\<close> chain assigns the
  gesture type and the base confidence that the fixed pattern table gives for the five
  extension booleans: thumb only is \<open>thumb_up\<close> at 0.90, index and middle only is
  \<open>peace_sign\<close> at 0.90, index only is \<open>pointing\<close> at 0.85, none is \<open>fist\<close> at 0.90,
  all five is \<open>open_palm\<close> at 0.80, thumb and index only is \<open>ok_sign\<close> at 0.80, and any
  other tuple assigns no type, so that the classifier returns \<open>null\<close>. The type the
  classifier returns is the type of the table.
\<close>

theorem recognizeGesture_pattern_table:
  assumes "21 \<le> length landmarks"
  shows "map_of spec_patternTable (fingerStates landmarks) =
           (case gesturePattern (fingerStates landmarks) of
              (None, c) \<Rightarrow> None
            | (Some ty, c) \<Rightarrow> Some (ty, c))
         \<and> map_option gesture_type (recognizeGesture landmarks) =
             map_option fst (map_of spec_patternTable (fingerStates landmarks))"
proof -
  have "map_option fst (map_of spec_patternTable (fingerStates landmarks)) =
          fst (gesturePattern (fingerStates landmarks))"
    by (simp add: gesturePattern_map_of split: prod.splits option.splits)
  with recognizeGesture_type [OF assms] gesturePattern_map_of [of "fingerStates landmarks"]
  show ?thesis by simp
qed

theorem recognizeGesture_pattern_table_witness:
  "21 \<le> length (openHand 0.5)
   \<and> fingerStates (openHand 0.5) = (True, True, True, True, True)
   \<and> map_of spec_patternTable (fingerStates (openHand 0.5)) = Some (open_palm, 0.8)
   \<and> gesturePattern (fingerStates (openHand 0.5)) = (Some open_palm, 0.8)
   \<and> map_option gesture_type (recognizeGesture (openHand 0.5)) = Some open_palm"
proof -
  have len: "21 \<le> length (openHand 0.5)"
    by (simp add: length_openHand)
  have fs: "fingerStates (openHand 0.5) = (True, True, True, True, True)"
    by (simp add: hand_eval)
  have tab: "map_of spec_patternTable (True, True, True, True, True) = Some (open_palm, 0.8)"
    by (simp add: spec_patternTable_def)
  from recognizeGesture_pattern_table [OF len] len fs tab show ?thesis
    by (simp add: gesturePattern_def)
qed

subsection \<open>The confidence adjustment\<close>

text \<open>
  C3, as the specification states it, fails at the end points of the interval: the hand
  \<open>fistHand 0.4\<close> is a fist (base confidence 0.9, no finger extended) whose hand size is
  exactly 0.4, and the classifier returns the confidence 0.9, where the adjustment with
  the closed interval [0.15, 0.4] gives 0.95.
\<close>

theorem recognizeGesture_closed_interval_counterexample:
  "handSize (fistHand 0.4) = 0.4
   \<and> gesturePattern (fingerStates (fistHand 0.4)) = (Some fist, 0.9)
   \<and> extendedCount (fingerStates (fistHand 0.4)) = 0
   \<and> recognizeGesture (fistHand 0.4) = Some \<lparr> gesture_type = fist, gesture_confidence = 0.9 \<rparr>
   \<and> spec_adjustedConfidence 0.9 0 (handSize (fistHand 0.4)) = 0.95"
  by (simp add: hand_eval spec_adjustedConfidence_def)

text \<open>
  C3, amended. On every hand on which the classifier returns a result, the returned
  confidence is the base confidence of the matched pattern, plus 0.05 when exactly 1, 2 or
  5 fingers are extended, plus 0.05 when the distance from the wrist to the palm centre
  (the mean of the four non-thumb MCP points) lies strictly between 0.15 and 0.4, capped
  at 0.95.
\<close>

theorem recognizeGesture_confidence_adjustment:
  assumes "recognizeGesture landmarks = Some g"
  shows "gesture_confidence g =
           min (snd (gesturePattern (fingerStates landmarks))
                + (if extendedCount (fingerStates landmarks) \<in> {1, 2, 5} then 0.05 else 0)
                + (if 0.15 < distance (landmarks ! 0) (palmCenter landmarks)
                      \<and> distance (landmarks ! 0) (palmCenter landmarks) < 0.4
                   then 0.05 else 0))
               0.95
         \<and> palmCenter landmarks =
             \<lparr> lm_x = (lm_x (landmarks ! 5) + lm_x (landmarks ! 9) + lm_x (landmarks ! 13)
                        + lm_x (landmarks ! 17)) / 4,
               lm_y = (lm_y (landmarks ! 5) + lm_y (landmarks ! 9) + lm_y (landmarks ! 13)
                        + lm_y (landmarks ! 17)) / 4 \<rparr>"
  using recognizeGesture_Some [OF assms]
  by (simp add: handSize_def palmCenter_def Let_def)

theorem recognizeGesture_confidence_adjustment_witness:
  "recognizeGesture (openHand 0.3) = Some \<lparr> gesture_type = open_palm, gesture_confidence = 0.9 \<rparr>
   \<and> snd (gesturePattern (fingerStates (openHand 0.3))) = 0.8
   \<and> extendedCount (fingerStates (openHand 0.3)) = 5
   \<and> distance (openHand 0.3 ! 0) (palmCenter (openHand 0.3)) = 0.3
   \<and> gesture_confidence \<lparr> gesture_type = open_palm, gesture_confidence = 0.9 \<rparr>
       = min (0.8 + 0.05 + 0.05) 0.95"
proof -
  have r: "recognizeGesture (openHand 0.3) =
             Some \<lparr> gesture_type = open_palm, gesture_confidence = 0.9 \<rparr>"
    by (rule recognizeGesture_openHand_near)
  have fs: "fingerStates (openHand 0.3) = (True, True, True, True, True)"
    by (simp add: hand_eval)
  have d: "distance (openHand 0.3 ! 0) (palmCenter (openHand 0.3)) = 0.3"
    by (simp add: hand_eval)
  from recognizeGesture_confidence_adjustment [OF r] r fs d show ?thesis
    by (simp add: gesturePattern_def extendedCount_def)
qed

text \<open>
  C4. Whenever the classifier returns a result, its confidence is strictly positive and at
  most 0.95.
\<close>

theorem recognizeGesture_confidence_range:
  assumes "recognizeGesture landmarks = Some g"
  shows "0 < gesture_confidence g \<and> gesture_confidence g \<le> 0.95"
proof -
  from recognizeGesture_conf_ge [OF assms] have "0 < gesture_confidence g"
    by simp
  moreover from recognizeGesture_base [OF assms] obtain c where
    "gesture_confidence g =
       min (c + (if extendedCount (fingerStates landmarks) \<in> {1, 2, 5} then 0.05 else 0)
              + (if 0.15 < handSize landmarks \<and> handSize landmarks < 0.4 then 0.05 else 0)) 0.95"
    by blast
  then have "gesture_confidence g \<le> 0.95"
    by (simp only: min.cobounded2)
  ultimately show ?thesis ..
qed

theorem recognizeGesture_confidence_range_witness:
  "recognizeGesture (fistHand 0.25) = Some \<lparr> gesture_type = fist, gesture_confidence = 0.95 \<rparr>
   \<and> (0::real) < 0.95 \<and> (0.95::real) \<le> 0.95"
  using recognizeGesture_confidence_range [OF recognizeGesture_fistHand_quarter]
    recognizeGesture_fistHand_quarter
  by simp

subsection \<open>The classifier inside the callback\<close>

lemma onResultsHand_accepted:
  assumes "recognizeGesture landmarks = Some g"
    and "map_of (getCurrentGestures m) (gesture_type g) = Some gestureText"
  shows "history (onResultsHand m (landmarks, created, now) s) =
           addToHistory now
             \<lparr> gesture = gestureText, confidence = gesture_confidence g,
               timestamp = created, mode = m \<rparr> (history s)"
  using assms recognizeGesture_conf_ge [OF assms(1)]
  by (simp add: onResultsHand_def)

lemma onResultsHand_prefix: "prefix (history s) (history (onResultsHand m frame s))"
  by (cases frame) (simp add: onResultsHand_def addToHistory_def split: option.splits)

lemma onResults_prefix: "prefix (history s) (history (onResults m frames s))"
proof (induction frames arbitrary: s)
  case Nil
  show ?case by simp
next
  case (Cons frame frames)
  have "prefix (history s) (history (onResultsHand m frame s))"
    by (rule onResultsHand_prefix)
  also have "prefix \<dots> (history (onResults m frames (onResultsHand m frame s)))"
    by (rule Cons.IH)
  finally show ?case by simp
qed

lemma onResultsHand_new:
  "history (onResultsHand m frame s) = history s
   \<or> (\<exists>e ty. history (onResultsHand m frame s) = history s @ [e] \<and> mode e = m
         \<and> map_of (getCurrentGestures m) ty = Some (gesture e))"
  by (cases frame) (auto simp add: onResultsHand_def addToHistory_def split: option.splits)

lemma onResults_new:
  "\<forall>e \<in> set (drop (length (history s)) (history (onResults m frames s))).
      mode e = m \<and> (\<exists>ty. map_of (getCurrentGestures m) ty = Some (gesture e))"
proof (induction frames arbitrary: s)
  case Nil
  show ?case by simp
next
  case (Cons frame frames)
  let ?s1 = "onResultsHand m frame s"
  from onResultsHand_new [of m frame s]
  show ?case
  proof
    assume h: "history ?s1 = history s"
    from Cons.IH [of ?s1] show ?thesis by (simp add: h)
  next
    assume "\<exists>e ty. history ?s1 = history s @ [e] \<and> mode e = m
        \<and> map_of (getCurrentGestures m) ty = Some (gesture e)"
    then obtain e ty where h: "history ?s1 = history s @ [e]" and e: "mode e = m"
      "map_of (getCurrentGestures m) ty = Some (gesture e)" by blast
    from onResults_prefix [of ?s1 m frames] obtain zs where
      z: "history (onResults m frames ?s1) = history s @ [e] @ zs"
      by (auto simp: prefix_def h)
    from Cons.IH [of ?s1]
    have "\<forall>e \<in> set zs. mode e = m \<and> (\<exists>ty. map_of (getCurrentGestures m) ty = Some (gesture e))"
      by (simp add: h z)
    with e show ?thesis by (auto simp add: z)
  qed
qed

text \<open>
  C10. Whenever the classifier returns a result on a hand of at least 21 landmarks, its
  confidence is at least 0.85, hence above the threshold 0.7 of \<open>onResults\<close>: the test
  \<open>gesture.confidence > 0.7\<close> never rejects a classified gesture, and what
  \<open>onResults\<close> does with the hand depends on the label table alone.
\<close>

theorem recognizeGesture_confidence_passes_gate:
  assumes "21 \<le> length landmarks" and "recognizeGesture landmarks = Some g"
  shows "0.85 \<le> gesture_confidence g \<and> 0.7 < gesture_confidence g
         \<and> onResultsHand m (landmarks, created, now) s =
             (case map_of (getCurrentGestures m) (gesture_type g) of
                None \<Rightarrow> s
              | Some gestureText \<Rightarrow>
                  s\<lparr> currentText := gestureText,
                     state_confidence := gesture_confidence g,
                     history := addToHistory now
                       \<lparr> gesture = gestureText, confidence = gesture_confidence g,
                         timestamp = created, mode = m \<rparr> (history s) \<rparr>)"
  using recognizeGesture_conf_ge [OF assms(2)] assms(2)
  by (simp add: onResultsHand_def split: option.splits)

theorem recognizeGesture_confidence_passes_gate_witness:
  "21 \<le> length (openHand 0.5)
   \<and> recognizeGesture (openHand 0.5) =
       Some \<lparr> gesture_type = open_palm, gesture_confidence = 0.85 \<rparr>
   \<and> onResultsHand word (openHand 0.5, 10, 11) initialState =
       \<lparr> state_mode = alphabet, currentText = ''HELP'', state_confidence = 0.85,
         history = [\<lparr> gesture = ''HELP'', confidence = 0.85, timestamp = 10, mode = word \<rparr>] \<rparr>"
proof -
  have len: "21 \<le> length (openHand 0.5)"
    by (simp add: length_openHand)
  from recognizeGesture_confidence_passes_gate
         [OF len recognizeGesture_openHand_far, of word 10 11 initialState]
       len recognizeGesture_openHand_far
  show ?thesis
    by (simp add: getCurrentGestures_def wordGestures_def initialState_def addToHistory_def)
qed

section \<open>Properties of the history\<close>

text \<open>
  C6. For a classification that \<open>onResults\<close> accepts (the classifier returns a result and
  the label table of the mode has a label for its type): if the history is not empty, its
  last event carries the same label and the clock is less than 1000 ms past that event's
  timestamp, the history is unchanged; otherwise exactly one event is appended. In
  particular, from an empty history, feeding the same hand a second time less than
  1000 ms after the first event appends nothing, and feeding it again once 1000 ms or more
  have passed appends a second event.
\<close>

theorem onResults_deduplication:
  assumes "recognizeGesture landmarks = Some g"
    and "map_of (getCurrentGestures m) (gesture_type g) = Some gestureText"
  shows "history (onResultsHand m (landmarks, created, now) s) =
           (if history s \<noteq> [] \<and> gesture (last (history s)) = gestureText
               \<and> now - timestamp (last (history s)) < 1000
            then history s
            else history s @ [\<lparr> gesture = gestureText, confidence = gesture_confidence g,
                                timestamp = created, mode = m \<rparr>])
         \<and> (now2 - created1 < 1000 \<longrightarrow> 1000 \<le> now3 - created1 \<longrightarrow>
              history (onResults m [(landmarks, created1, now1), (landmarks, created2, now2)]
                         (s\<lparr> history := [] \<rparr>)) =
                [\<lparr> gesture = gestureText, confidence = gesture_confidence g,
                   timestamp = created1, mode = m \<rparr>]
              \<and> history (onResults m [(landmarks, created1, now1), (landmarks, created2, now2),
                                       (landmarks, created3, now3)]
                           (s\<lparr> history := [] \<rparr>)) =
                  [\<lparr> gesture = gestureText, confidence = gesture_confidence g,
                     timestamp = created1, mode = m \<rparr>,
                   \<lparr> gesture = gestureText, confidence = gesture_confidence g,
                     timestamp = created3, mode = m \<rparr>])"
  by (simp add: onResultsHand_accepted [OF assms] addToHistory_def)

theorem onResults_deduplication_witness:
  "recognizeGesture (fistHand 0) = Some \<lparr> gesture_type = fist, gesture_confidence = 0.9 \<rparr>
   \<and> map_of (getCurrentGestures alphabet) fist = Some ''B''
   \<and> (500::int) - 0 < 1000 \<and> (1000::int) \<le> 1000 - 0
   \<and> history (onResults alphabet [(fistHand 0, 0, 0), (fistHand 0, 499, 500)] initialState) =
       [\<lparr> gesture = ''B'', confidence = 0.9, timestamp = 0, mode = alphabet \<rparr>]
   \<and> history (onResults alphabet
                [(fistHand 0, 0, 0), (fistHand 0, 499, 500), (fistHand 0, 1000, 1000)]
                initialState) =
       [\<lparr> gesture = ''B'', confidence = 0.9, timestamp = 0, mode = alphabet \<rparr>,
        \<lparr> gesture = ''B'', confidence = 0.9, timestamp = 1000, mode = alphabet \<rparr>]"
proof -
  have l: "map_of (getCurrentGestures alphabet)
             (gesture_type \<lparr> gesture_type = fist, gesture_confidence = 0.9 \<rparr>) = Some ''B''"
    by (simp add: getCurrentGestures_def alphabetGestures_def)
  have i: "initialState\<lparr> history := [] \<rparr> = initialState"
    by (simp add: initialState_def)
  from onResults_deduplication [OF recognizeGesture_fistHand_0 l,
         of 0 0 initialState 500 0 1000 0 499 1000]
       recognizeGesture_fistHand_0 l
  show ?thesis
    by (simp add: i)
qed

lemma registeredOnResults_alphabet:
  assumes "\<forall>e \<in> set (history s). mode e = alphabet"
  shows "\<forall>e \<in> set (history (registeredOnResults frames s)). mode e = alphabet"
proof -
  let ?h = "history (registeredOnResults frames s)"
  have "prefix (history s) ?h"
    by (simp add: registeredOnResults_def onResults_prefix)
  then have "?h = history s @ drop (length (history s)) ?h"
    by (auto simp: prefix_def)
  then have "set ?h = set (history s) \<union> set (drop (length (history s)) ?h)"
    by (metis set_append)
  moreover have "\<forall>e \<in> set (drop (length (history s)) ?h). mode e = alphabet"
    using onResults_new [of s "state_mode initialState" frames]
    by (simp add: registeredOnResults_def initialState_def)
  ultimately show ?thesis
    using assms by auto
qed

lemma component_step_alphabet:
  assumes "\<forall>e \<in> set (history s). mode e = alphabet"
  shows "\<forall>e \<in> set (history (component_step s ev)). mode e = alphabet"
proof (cases ev)
  case (SetMode m)
  with assms show ?thesis by (simp add: setMode_def)
next
  case (HandsResults frames)
  with registeredOnResults_alphabet [OF assms] show ?thesis by simp
next
  case ClearHistory
  then show ?thesis by (simp add: clearHistory_def)
qed

lemma component_run_alphabet:
  assumes "\<forall>e \<in> set (history s). mode e = alphabet"
  shows "\<forall>e \<in> set (history (component_run s events)). mode e = alphabet"
  using assms unfolding component_run_def
proof (induction events arbitrary: s)
  case Nil
  then show ?case by simp
next
  case (Cons ev events)
  from Cons.IH [OF component_step_alphabet [OF Cons.prems]] show ?case by simp
qed

text \<open>
  C7. Switching the mode leaves the history as it is, but the classifications accepted
  after the switch do not use the label table of the new mode. The callback that MediaPipe
  calls is the \<open>onResults\<close> of the first render, whose mode is \<open>alphabet\<close>: a fist shown
  before and again after the switch to \<open>word\<close> is recorded both times with the label
  \<open>B\<close> and the mode \<open>alphabet\<close>, where the table of \<open>word\<close> has \<open>NO\<close> for it.
\<close>

theorem setMode_ignored_by_registered_callback:
  "history (component_run initialState
      [HandsResults [(fistHand 0, 0, 0)], SetMode word, HandsResults [(fistHand 0, 5000, 5000)]]) =
     [\<lparr> gesture = ''B'', confidence = 0.9, timestamp = 0, mode = alphabet \<rparr>,
      \<lparr> gesture = ''B'', confidence = 0.9, timestamp = 5000, mode = alphabet \<rparr>]
   \<and> state_mode (component_run initialState
      [HandsResults [(fistHand 0, 0, 0)], SetMode word, HandsResults [(fistHand 0, 5000, 5000)]]) =
       word
   \<and> map_of (getCurrentGestures word) fist = Some ''NO''"
  by (simp add: component_run_def registeredOnResults_def setMode_def initialState_def
        onResultsHand_def recognizeGesture_fistHand_0 getCurrentGestures_def
        alphabetGestures_def wordGestures_def addToHistory_def)

section \<open>Properties of the keyword scan\<close>

lemma scanKeywords_result:
  "scanKeywords transcript table acc =
     (case criticalCandidates transcript table of
        c # cs \<Rightarrow> Some (last (c # cs))
      | [] \<Rightarrow> (case acc of
                 Some a \<Rightarrow> Some a
               | None \<Rightarrow> (case candidates transcript table of c # cs \<Rightarrow> Some c | [] \<Rightarrow> None)))"
proof (induction table arbitrary: acc)
  case Nil
  show ?case
    by (simp add: criticalCandidates_def candidates_def split: option.splits)
next
  case (Cons e table)
  obtain keyword info where e: "e = (keyword, info)"
    by (cases e)
  show ?case
    unfolding e
    by (simp add: Cons.IH)
       (auto simp add: criticalCandidates_def candidates_def split: list.splits option.splits)
qed

lemmas keyword_eval =
  detectKeyword_def spec_bestMatch_def criticalCandidates_def candidates_def
  emergencyKeywords_def string_includes_def sublist_Cons_right

text \<open>
  C1, as the specification states it, fails when a transcript holds two critical
  keywords: in \<open>there is a fire and ambulance needed\<close> the candidates are \<open>fire\<close> and
  \<open>ambulance\<close>, both critical, and the scan ends with \<open>ambulance\<close>, the later one, where
  the earliest critical candidate is \<open>fire\<close>.
\<close>

theorem detectKeyword_earliest_critical_counterexample:
  "detectKeyword ''there is a fire and ambulance needed'' =
     Some (''ambulance'',
           \<lparr> service = ''Medical Emergency'', number = ''108'', severity = critical \<rparr>)
   \<and> spec_bestMatch ''there is a fire and ambulance needed'' emergencyKeywords =
       Some (''fire'', \<lparr> service = ''Fire Department'', number = ''101'', severity = critical \<rparr>)
   \<and> detectKeyword ''there is a fire and ambulance needed'' \<noteq>
       spec_bestMatch ''there is a fire and ambulance needed'' emergencyKeywords"
  by (simp add: keyword_eval)

text \<open>
  C1, amended. For every transcript, with the fixed keyword table scanned in insertion
  order, the first candidate found becomes the current best and every later candidate of
  severity critical replaces it, whatever the severity of the current best. So the scan
  returns the last critical candidate when the transcript includes a critical keyword, the
  first candidate when it includes keywords none of which is critical, and nothing when it
  includes no keyword.
\<close>

theorem detectKeyword_last_critical_else_first:
  "detectKeyword transcript =
     (case criticalCandidates transcript emergencyKeywords of
        c # cs \<Rightarrow> Some (last (c # cs))
      | [] \<Rightarrow> (case candidates transcript emergencyKeywords of
                 c # cs \<Rightarrow> Some c
               | [] \<Rightarrow> None))"
  by (simp add: detectKeyword_def scanKeywords_result split: list.splits)

theorem detectKeyword_last_critical_else_first_witness:
  "candidates ''please help, there was an accident, she is bleeding'' emergencyKeywords =
     [(''help'', \<lparr> service = ''Emergency Services'', number = ''108'', severity = high \<rparr>),
      (''accident'', \<lparr> service = ''Medical Emergency'', number = ''108'', severity = critical \<rparr>),
      (''bleeding'', \<lparr> service = ''Medical Emergency'', number = ''108'', severity = critical \<rparr>)]
   \<and> detectKeyword ''please help, there was an accident, she is bleeding'' =
       Some (''bleeding'',
             \<lparr> service = ''Medical Emergency'', number = ''108'', severity = critical \<rparr>)
   \<and> detectKeyword ''the police can help'' =
       Some (''help'', \<lparr> service = ''Emergency Services'', number = ''108'', severity = high \<rparr>)
   \<and> detectKeyword ''good morning'' = None"
proof -
  have c: "candidates ''please help, there was an accident, she is bleeding'' emergencyKeywords =
     [(''help'', \<lparr> service = ''Emergency Services'', number = ''108'', severity = high \<rparr>),
      (''accident'', \<lparr> service = ''Medical Emergency'', number = ''108'', severity = critical \<rparr>),
      (''bleeding'', \<lparr> service = ''Medical Emergency'', number = ''108'', severity = critical \<rparr>)]"
    by (simp add: candidates_def emergencyKeywords_def string_includes_def sublist_Cons_right)
  have p: "candidates ''the police can help'' emergencyKeywords =
     [(''help'', \<lparr> service = ''Emergency Services'', number = ''108'', severity = high \<rparr>),
      (''police'', \<lparr> service = ''Police'', number = ''100'', severity = high \<rparr>)]"
    by (simp add: candidates_def emergencyKeywords_def string_includes_def sublist_Cons_right)
  have g: "candidates ''good morning'' emergencyKeywords = []"
    by (simp add: candidates_def emergencyKeywords_def string_includes_def sublist_Cons_right)
  from detectKeyword_last_critical_else_first
         [of "''please help, there was an accident, she is bleeding''"]
       detectKeyword_last_critical_else_first [of "''the police can help''"]
       detectKeyword_last_critical_else_first [of "''good morning''"]
  show ?thesis
    by (simp add: criticalCandidates_def c p g)
qed

section \<open>Properties of the report log\<close>

text \<open>
  C8. \<open>createReport\<close> sets the status from the \<open>isOnline\<close> of the render it belongs to,
  which is the connectivity at the creation of the report only when the caller is a
  handler of the latest render. The SOS button is: an SOS while offline is \<open>pending\<close>. The
  voice path is not: with the recording started while online and the connection lost
  afterwards, the report of a transcript that holds a keyword is \<open>sent\<close>, although
  \<open>isOnline\<close> is false when it is created.
\<close>

theorem createReport_stale_isOnline:
  "map status (reports (index_run initialIndexState
      [StartVoiceRecording, HandleOffline, ProcessVoiceTranscript 1000 1000 ''help''])) = [sent]
   \<and> isOnline (index_run initialIndexState [StartVoiceRecording, HandleOffline]) = False
   \<and> map status (reports (index_run initialIndexState
        [HandleOffline, HandleSOS 1000 1000])) = [pending]"
  by (simp add: index_run_def processVoiceTranscript_def handleSOS_def keyword_eval
        createReport_def currentRender_def Let_def initialIndexState_def)

text \<open>
  C9. The id of a report is the decimal string of \<open>Date.now()\<close>, so two reports created
  at the same clock reading have the same id: two transcripts handled in the same
  millisecond leave a log whose two reports both have the id \<open>1700000000000\<close>.
\<close>

theorem createReport_same_millisecond_ids:
  "map report_id (reports (index_run initialIndexState
      [StartVoiceRecording,
       ProcessVoiceTranscript 1700000000000 1700000000000 ''help'',
       ProcessVoiceTranscript 1700000000000 1700000000000 ''help me''])) =
     [''1700000000000'', ''1700000000000'']
   \<and> \<not> distinct (map report_id (reports (index_run initialIndexState
      [StartVoiceRecording,
       ProcessVoiceTranscript 1700000000000 1700000000000 ''help'',
       ProcessVoiceTranscript 1700000000000 1700000000000 ''help me''])))"
  by (simp add: index_run_def processVoiceTranscript_def keyword_eval createReport_def Let_def
        currentRender_def toString_def toString_nat.simps initialIndexState_def)

end
